theory Spec2Isabelle
  imports Main "HOL-Library.Sublist" "HOL-Library.Product_Lexorder"
begin

section \<open>Python strings\<close>

text \<open>
  A Python \<open>str\<close> is modelled as a \<^typ>\<open>string\<close>, one \<^typ>\<open>char\<close> per character of
  the source string. The functions below are the \<open>str\<close> methods the two modules call.
\<close>

text \<open>\<open>str.isspace\<close> on one character, for the ASCII range: tab, line feed, vertical tab,
  form feed, carriage return, the four separators 0x1c..0x1f and the space.\<close>

definition isspace :: "char \<Rightarrow> bool" where
  "isspace c = (let n = (of_char c :: nat) in (9 \<le> n \<and> n \<le> 13) \<or> (28 \<le> n \<and> n \<le> 32))"

text \<open>\<open>s.strip()\<close>: leading and trailing whitespace removed.\<close>

definition strip :: "string \<Rightarrow> string" where
  "strip s = rev (dropWhile isspace (rev (dropWhile isspace s)))"

text \<open>\<open>s.replace(old, new)\<close> for a non-empty \<open>old\<close>: the occurrences are found from the
  left and do not overlap.\<close>

function replace_from :: "string \<Rightarrow> string \<Rightarrow> string \<Rightarrow> string" where
  "replace_from old new [] = []"
| "replace_from old new (c # cs) =
     (if old \<noteq> [] \<and> prefix old (c # cs)
      then new @ replace_from old new (drop (length old) (c # cs))
      else c # replace_from old new cs)"
  by pat_completeness auto
termination
  by (relation "measure (\<lambda>(old, new, s). length s)") auto

text \<open>\<open>s.replace(old, new)\<close>; an empty \<open>old\<close> matches before every character and at the
  end.\<close>

definition replace :: "string \<Rightarrow> string \<Rightarrow> string \<Rightarrow> string" where
  "replace old new s =
     (if old = [] then new @ concat (map (\<lambda>c. c # new) s) else replace_from old new s)"

text \<open>\<open>str(n)\<close> for an integer: decimal digits, with a minus sign for a negative one.\<close>

definition digit_char :: "nat \<Rightarrow> char" where
  "digit_char d = ''0123456789'' ! d"

fun str_of_nat :: "nat \<Rightarrow> string" where
  "str_of_nat n =
     (if n < 10 then [digit_char n]
      else str_of_nat (n div 10) @ [digit_char (n mod 10)])"

definition str_of_int :: "int \<Rightarrow> string" where
  "str_of_int i = (if i < 0 then CHR ''-'' # str_of_nat (nat (- i)) else str_of_nat (nat i))"

section \<open>The summary service (\<open>src/llm_service.py\<close>)\<close>

subsection \<open>JSON values and the environment of a call\<close>

text \<open>
  What \<open>json.loads\<close> returns. A JSON object is a Python \<open>dict\<close> and keeps the order of
  its keys, so it is an association list. Numbers are integers here; no function of the
  module reads one.
\<close>

datatype json =
    JNull
  | JBool bool
  | JNum int
  | JStr string
  | JArr "json list"
  | JObj "(string \<times> json) list"

text \<open>\<open>d[k] = v\<close> on a \<open>dict\<close>: an existing key keeps its place and takes the new value,
  a new key goes last.\<close>

fun dict_set :: "(string \<times> json) list \<Rightarrow> string \<Rightarrow> json \<Rightarrow> (string \<times> json) list" where
  "dict_set [] k v = [(k, v)]"
| "dict_set ((k', v') # kvs) k v =
     (if k' = k then (k, v) # kvs else (k', v') # dict_set kvs k v)"

text \<open>
  \<open>summary_data[k] = v\<close> on whatever \<open>json.loads\<close> returned. Only a \<open>dict\<close> supports it
  with a string key; every other value raises \<open>TypeError\<close>, whose message is the \<open>Inl\<close>.
\<close>

fun setitem :: "json \<Rightarrow> string \<Rightarrow> json \<Rightarrow> string + json" where
  "setitem (JObj kvs) k v = Inr (JObj (dict_set kvs k v))"
| "setitem (JArr xs) k v = Inl ''list indices must be integers or slices, not str''"
| "setitem (JStr s) k v =
     Inl ([CHR 0x27] @ ''str'' @ [CHR 0x27] @ '' object does not support item assignment'')"
| "setitem (JNum n) k v =
     Inl ([CHR 0x27] @ ''int'' @ [CHR 0x27] @ '' object does not support item assignment'')"
| "setitem (JBool b) k v =
     Inl ([CHR 0x27] @ ''bool'' @ [CHR 0x27] @ '' object does not support item assignment'')"
| "setitem JNull k v =
     Inl ([CHR 0x27] @ ''NoneType'' @ [CHR 0x27] @ '' object does not support item assignment'')"

text \<open>
  The module reads its configuration and reaches the two services through globals and
  library calls. They are the fields of one record, passed to every function:
  \<^item> the two import flags and the two API keys (\<open>os.getenv\<close>, \<open>None\<close> when unset);
  \<^item> \<open>USE_FALLBACK\<close> and \<open>FORCE_PROVIDER\<close>, the module constants as they are after
    \<open>.lower()\<close>;
  \<^item> \<open>gemini_generate\<close>: the request to Gemini (\<open>GenerativeModel\<close>, \<open>generate_content\<close>,
    \<open>response.text\<close>) as a function of the prompt, giving \<open>Inl\<close> the text of the
    exception it raised, or \<open>Inr\<close> the response text;
  \<^item> \<open>openai_create\<close>: the same for \<open>client.chat.completions.create\<close> and the message
    content, as a function of the system and the user prompt;
  \<^item> \<open>json_loads\<close>: \<open>json.loads\<close>, giving \<open>Inl\<close> the text of the \<open>JSONDecodeError\<close>
    or \<open>Inr\<close> the value.
  An exception is modelled by its message (\<open>str(e)\<close>), the only part any caller reads.
  What the functions print is not modelled.
\<close>

record env =
  GEMINI_AVAILABLE :: bool
  OPENAI_AVAILABLE :: bool
  GEMINI_API_KEY :: "string option"
  OPENAI_API_KEY :: "string option"
  USE_FALLBACK :: bool
  FORCE_PROVIDER :: string
  gemini_generate :: "string \<Rightarrow> string + string"
  openai_create :: "string \<Rightarrow> string \<Rightarrow> string + string"
  json_loads :: "string \<Rightarrow> string + json"

text \<open>
  The calls a run makes, in order: \<open>Called p\<close> when the function of provider \<open>p\<close> is
  entered, \<open>Requested p\<close> when the request to the service of \<open>p\<close> is sent. Every
  function returns its result together with the events it produced.
\<close>

datatype provider = Gemini | OpenAI

datatype event = Called provider | Requested provider

subsection \<open>The prompts\<close>

definition build_system_prompt :: string where
  \<open>build_system_prompt =
     ''You are an expert home health clinician with decades of experience in patient care documentation. Your role is to create concise, evidence-based clinical summaries that tell the story of a patient'' @ [CHR 0x27] @ ''s current condition.\<newline>'' @
     ''\<newline>'' @
     ''CRITICAL REQUIREMENTS:\<newline>'' @
     ''1. Every claim must be backed by specific data from the patient record\<newline>'' @
     ''2. Include citations in the format: [Source: <file>csv, Date: YYYY-MM-DD] or [Source: <file>.csv]\<newline>'' @
     ''3. Focus on clinically relevant information\<newline>'' @
     ''4. Highlight trends (improving, stable, declining)\<newline>'' @
     ''5. Note any concerning findings\<newline>'' @
     ''\<newline>'' @
     ''OUTPUT FORMAT:\<newline>'' @
     ''Return a JSON object with this structure:\<newline>'' @
     ''{\<newline>'' @
     ''  "summary": "Overall narrative summary (2-3 paragraphs)",\<newline>'' @
     ''  "sections": {\<newline>'' @
     ''    "diagnoses": {\<newline>'' @
     ''      "content": "Primary diagnoses and comorbidities",\<newline>'' @
     ''      "citations": ["Source: diagnoses.csv"]\<newline>'' @
     ''    },\<newline>'' @
     ''    "vitals": {\<newline>'' @
     ''      "content": "Recent vital sign trends with specific values",\<newline>'' @
     ''      "citations": ["Source: vitals.csv, Date: 2026-01-08"]\<newline>'' @
     ''    },\<newline>'' @
     ''    "wounds": {\<newline>'' @
     ''      "content": "Active wounds, location, stage, and healing status",\<newline>'' @
     ''      "citations": ["Source: wounds.csv, Date: 2026-01-08"]\<newline>'' @
     ''    },\<newline>'' @
     ''    "medications": {\<newline>'' @
     ''      "content": "Active medication regimen with classifications",\<newline>'' @
     ''      "citations": ["Source: medications.csv"]\<newline>'' @
     ''    },\<newline>'' @
     ''    "functional_status": {\<newline>'' @
     ''      "content": "OASIS assessment interpretation - ability to perform ADLs",\<newline>'' @
     ''      "citations": ["Source: oasis.csv, Date: YYYY-MM-DD"]\<newline>'' @
     ''    },\<newline>'' @
     ''    "clinical_notes": {\<newline>'' @
     ''      "content": "Key observations from nursing notes",\<newline>'' @
     ''      "citations": ["Source: notes.csv, Date: YYYY-MM-DD"]\<newline>'' @
     ''    }\<newline>'' @
     ''  },\<newline>'' @
     ''  "provider_used": "gemini" or "openai"\<newline>'' @
     ''}\<newline>'' @
     ''\<newline>'' @
     ''CRITICAL: You MUST use actual dates from the data, not placeholder dates. Return ONLY valid JSON.''\<close>

definition build_user_prompt :: "string \<Rightarrow> string" where
  "build_user_prompt patient_context =
     ''Please generate a comprehensive clinical summary for this home health patient.\<newline>'' @
     ''\<newline>'' @
     patient_context @ ''\<newline>'' @
     ''\<newline>'' @
     ''Generate the summary following the JSON structure specified above. Ensure every clinical claim has a citation. Return ONLY the JSON object, no additional text.''"

subsection \<open>The two providers\<close>

text \<open>The clean-up of Gemini's response text: a leading code fence is removed wherever
  it occurs, and the rest is stripped.\<close>

definition strip_code_fence :: "string \<Rightarrow> string" where
  "strip_code_fence response_text =
     (if prefix ''```json'' response_text
      then strip (replace ''```'' '''' (replace ''```json'' '''' response_text))
      else if prefix ''```'' response_text
      then strip (replace ''```'' '''' response_text)
      else response_text)"

definition call_gemini :: "env \<Rightarrow> string \<Rightarrow> (string + json) \<times> event list" where
  "call_gemini e patient_context =
     (if \<not> GEMINI_AVAILABLE e
      then (Inl ''Google Generative AI library not installed'', [Called Gemini])
      else if (case GEMINI_API_KEY e of None \<Rightarrow> True
               | Some api_key \<Rightarrow> api_key = [] \<or> prefix ''your-'' api_key)
      then (Inl ''GEMINI_API_KEY not configured in .env file'', [Called Gemini])
      else
        let full_prompt =
              build_system_prompt @ ''\<newline>\<newline>'' @ build_user_prompt patient_context;
            events = [Called Gemini, Requested Gemini]
        in (case gemini_generate e full_prompt of
              Inl err \<Rightarrow> (Inl (''Gemini API error: '' @ err), events)
            | Inr raw_text \<Rightarrow>
                (let response_text = strip_code_fence raw_text
                 in (case json_loads e response_text of
                       Inl err \<Rightarrow>
                         (Inl (''Gemini returned invalid JSON: '' @ err @
                               ''\<newline>Response: '' @ take 200 response_text), events)
                     | Inr summary_data \<Rightarrow>
                         (case setitem summary_data ''provider_used'' (JStr ''gemini'') of
                            Inl err \<Rightarrow> (Inl (''Gemini API error: '' @ err), events)
                          | Inr summary_data' \<Rightarrow> (Inr summary_data', events))))))"

definition call_openai :: "env \<Rightarrow> string \<Rightarrow> (string + json) \<times> event list" where
  "call_openai e patient_context =
     (if \<not> OPENAI_AVAILABLE e
      then (Inl ''OpenAI library not installed'', [Called OpenAI])
      else if (case OPENAI_API_KEY e of None \<Rightarrow> True
               | Some api_key \<Rightarrow> api_key = [] \<or> prefix ''sk-your'' api_key)
      then (Inl ''OPENAI_API_KEY not configured in .env file'', [Called OpenAI])
      else
        let events = [Called OpenAI, Requested OpenAI]
        in (case openai_create e build_system_prompt (build_user_prompt patient_context) of
              Inl err \<Rightarrow> (Inl (''OpenAI API error: '' @ err), events)
            | Inr response_text \<Rightarrow>
                (case json_loads e response_text of
                   Inl err \<Rightarrow> (Inl (''OpenAI returned invalid JSON: '' @ err), events)
                 | Inr summary_data \<Rightarrow>
                     (case setitem summary_data ''provider_used'' (JStr ''openai'') of
                        Inl err \<Rightarrow> (Inl (''OpenAI API error: '' @ err), events)
                      | Inr summary_data' \<Rightarrow> (Inr summary_data', events)))))"

subsection \<open>The orchestrator\<close>

text \<open>
  \<open>generate_summary\<close> returns \<open>Inr (summary, provider_name)\<close>, or \<open>Inl\<close> the message of
  the exception that leaves it: the forced provider's own exception, which no handler
  catches, or the message built after the last \<open>except\<close>.
\<close>

definition generate_summary ::
  "env \<Rightarrow> string \<Rightarrow> (string + json \<times> string) \<times> event list" where
  "generate_summary e patient_context =
     (if FORCE_PROVIDER e = ''openai'' then
        (case call_openai e patient_context of
           (Inl err, evs) \<Rightarrow> (Inl err, evs)
         | (Inr summary, evs) \<Rightarrow> (Inr (summary, ''openai''), evs))
      else if FORCE_PROVIDER e = ''gemini'' then
        (case call_gemini e patient_context of
           (Inl err, evs) \<Rightarrow> (Inl err, evs)
         | (Inr summary, evs) \<Rightarrow> (Inr (summary, ''gemini''), evs))
      else
        (case call_gemini e patient_context of
           (Inr summary, evs) \<Rightarrow> (Inr (summary, ''gemini''), evs)
         | (Inl gemini_error, evs) \<Rightarrow>
             (if USE_FALLBACK e then
               (case call_openai e patient_context of
                  (Inr summary, evs') \<Rightarrow> (Inr (summary, ''openai''), evs @ evs')
                | (Inl openai_error, evs') \<Rightarrow>
                    (Inl (''Both LLM providers failed:\<newline>'' @
                          ''  Gemini: '' @ gemini_error @ ''\<newline>'' @
                          ''  OpenAI: '' @ openai_error @ ''\<newline>''), evs @ evs'))
             else
               (Inl (''Both LLM providers failed:\<newline>'' @
                     ''  Gemini: '' @ gemini_error @ ''\<newline>'' @
                     ''  OpenAI: Fallback disabled\<newline>''), evs))))"

subsection \<open>The summary schema of the specification\<close>





subsection \<open>Example environments\<close>

text \<open>
  Stub providers for the concrete runs below: both libraries installed, both keys set,
  each service answering every prompt with a fixed outcome. \<open>example_loads\<close> agrees with
  \<open>json.loads\<close> on the response texts those runs use: three documents it decodes, and
  texts that are not JSON at their first character.
\<close>

definition example_loads :: "string \<Rightarrow> string + json" where
  \<open>example_loads s =
     (if s = ''{}'' then Inr (JObj [])
      else if s = ''[]'' then Inr (JArr [])
      else if s = ''{"summary": "stable", "sections": {}}''
      then Inr (JObj [(''summary'', JStr ''stable''), (''sections'', JObj [])])
      else Inl ''Expecting value: line 1 column 1 (char 0)'')\<close>

definition example_env ::
  "string \<Rightarrow> bool \<Rightarrow> string + string \<Rightarrow> string + string \<Rightarrow> env" where
  "example_env force fallback gemini_answer openai_answer =
     \<lparr>GEMINI_AVAILABLE = True, OPENAI_AVAILABLE = True,
      GEMINI_API_KEY = Some ''g-key'', OPENAI_API_KEY = Some ''sk-key'',
      USE_FALLBACK = fallback, FORCE_PROVIDER = force,
      gemini_generate = (\<lambda>prompt. gemini_answer),
      openai_create = (\<lambda>system user. openai_answer),
      json_loads = example_loads\<rparr>"

section \<open>The data layer (\<open>src/data_layer.py\<close>)\<close>

subsection \<open>Cells, rows and frames\<close>

text \<open>
  A cell of a table is an integer or a text; \<open>str_of_cell\<close> is what an f-string prints for
  it. Missing cells (pandas' \<open>NaN\<close>) and floating-point cells are not modelled. A row, as
  \<open>to_dict('records')\<close> returns it, is a Python \<open>dict\<close> from column names to cells. The
  rows of one frame share their keys: a key that a row does not have is a column the
  frame does not have.
\<close>

datatype cell = CInt int | CStr string

type_synonym row = "(string \<times> cell) list"

definition str_of_cell :: "cell \<Rightarrow> string" where
  "str_of_cell c = (case c of CInt i \<Rightarrow> str_of_int i | CStr s \<Rightarrow> s)"

text \<open>\<open>d.get(key, default)\<close>.\<close>

definition dict_get :: "row \<Rightarrow> string \<Rightarrow> cell \<Rightarrow> cell" where
  "dict_get d key dflt = (case map_of d key of Some v \<Rightarrow> v | None \<Rightarrow> dflt)"

text \<open>The exceptions of the data layer, by class.\<close>

datatype py_error = KeyError | ValueError | TypeError | IndexError

text \<open>What follows a step that may raise.\<close>

definition and_then :: "py_error + 'a \<Rightarrow> ('a \<Rightarrow> py_error + 'b) \<Rightarrow> py_error + 'b" where
  "and_then r f = (case r of Inl e \<Rightarrow> Inl e | Inr x \<Rightarrow> f x)"




subsection \<open>Loading and filtering\<close>




record patient_data =
  patient_id :: int
  diagnoses :: "row list"
  medications :: "row list"
  vitals :: "row list"
  "notes" :: "row list"
  wounds :: "row list"
  oasis :: "row list"


subsection \<open>Timestamps, sorting and grouping\<close>

text \<open>
  A pandas \<open>Timestamp\<close>, to the second: year, month, day, hour, minute, second, compared
  in that order. \<open>strftime_date\<close> is \<open>strftime('%Y-%m-%d')\<close> and \<open>str_of_timestamp\<close> is what
  an f-string prints for a \<open>Timestamp\<close>.
\<close>

type_synonym timestamp = "nat \<times> nat \<times> nat \<times> nat \<times> nat \<times> nat"

definition zero_pad :: "nat \<Rightarrow> nat \<Rightarrow> string" where
  "zero_pad width n =
     (let digits = str_of_nat n in replicate (width - length digits) CHR ''0'' @ digits)"

definition strftime_date :: "timestamp \<Rightarrow> string" where
  "strftime_date t =
     (case t of (y, mo, d, h, mi, s) \<Rightarrow>
        zero_pad 4 y @ ''-'' @ zero_pad 2 mo @ ''-'' @ zero_pad 2 d)"

definition str_of_timestamp :: "timestamp \<Rightarrow> string" where
  "str_of_timestamp t =
     (case t of (y, mo, d, h, mi, s) \<Rightarrow>
        zero_pad 4 y @ ''-'' @ zero_pad 2 mo @ ''-'' @ zero_pad 2 d @ '' '' @
        zero_pad 2 h @ '':'' @ zero_pad 2 mi @ '':'' @ zero_pad 2 s)"

text \<open>
  \<open>df[col] = pd.to_datetime(df[col])\<close> on the frame built from a list of rows. The
  conversion of one cell is a parameter of the model, \<open>None\<close> where pandas raises. The
  result pairs every row with the timestamp of its \<open>col\<close> cell. A missing column is a
  \<open>KeyError\<close>, a cell that does not convert a \<open>ValueError\<close>.
\<close>

fun with_datetime ::
  "(cell \<Rightarrow> timestamp option) \<Rightarrow> string \<Rightarrow> row list \<Rightarrow> py_error + (timestamp \<times> row) list" where
  "with_datetime to_datetime col [] = Inr []"
| "with_datetime to_datetime col (r # rs) =
     (case map_of r col of
        None \<Rightarrow> Inl KeyError
      | Some c \<Rightarrow>
          (case to_datetime c of
             None \<Rightarrow> Inl ValueError
           | Some t \<Rightarrow>
               and_then (with_datetime to_datetime col rs) (\<lambda>trs. Inr ((t, r) # trs))))"

text \<open>
  \<open>df.sort_values(col, ascending=False)\<close>: pandas reverses the column, sorts it ascending
  and reverses the result, so with a stable sort rows of equal key keep their order.
  (numpy's default sort is stable on short columns only; on a long column the order of
  rows with equal keys is outside this model.)
\<close>

definition sort_values_desc :: "('a \<Rightarrow> 'k::linorder) \<Rightarrow> 'a list \<Rightarrow> 'a list" where
  "sort_values_desc key xs = rev (sort_key key (rev xs))"

text \<open>
  Iterating over \<open>df.groupby(col)\<close>: \<open>sort=True\<close> is the default, so the groups come in
  ascending order of their key, whatever the order of the frame; inside a group the rows
  keep the order of the frame.
\<close>

definition groupby :: "('a \<Rightarrow> 'k::linorder) \<Rightarrow> 'a list \<Rightarrow> ('k \<times> 'a list) list" where
  "groupby key xs =
     map (\<lambda>k. (k, filter (\<lambda>x. key x = k) xs)) (sort (remdups (map key xs)))"

text \<open>\<open>df.drop_duplicates(subset=..., keep='first')\<close>, with \<open>key\<close> the cells of the subset:
  a row is kept when no earlier row has its key.\<close>

fun keep_first :: "('a \<Rightarrow> 'k) \<Rightarrow> 'k list \<Rightarrow> 'a list \<Rightarrow> 'a list" where
  "keep_first key seen [] = []"
| "keep_first key seen (x # xs) =
     (if key x \<in> set seen then keep_first key seen xs
      else x # keep_first key (key x # seen) xs)"

definition drop_duplicates :: "('a \<Rightarrow> 'k) \<Rightarrow> 'a list \<Rightarrow> 'a list" where
  "drop_duplicates key xs = keep_first key [] xs"

subsection \<open>The sections of the narrative\<close>

text \<open>
  Section 1. The descriptions are added to a Python \<open>set\<close> and the set is iterated. The
  order in which a set of strings is iterated depends on their hashes, which CPython
  salts per process; it is a parameter of the model, \<open>set_iter\<close>, from the sequence of
  insertions to the sequence of the iteration.
\<close>

definition diagnoses_section :: "(cell list \<Rightarrow> cell list) \<Rightarrow> row list \<Rightarrow> string" where
  "diagnoses_section set_iter diags =
     ''## PRIMARY DIAGNOSES\<newline>'' @
     (if diags \<noteq> [] then
        (let unique_diagnoses =
               set_iter (map (\<lambda>diag. dict_get diag ''diagnosis_description'' (CStr ''Unknown''))
                             diags)
         in concat (map (\<lambda>(idx, diag). str_of_nat idx @ ''. '' @ str_of_cell diag @ ''\<newline>'')
                        (enumerate 1 unique_diagnoses)))
      else ''No diagnosis data available.\<newline>'') @
     ''\<newline>''"

text \<open>Section 2. The loop keeps the set \<open>seen_meds\<close> and appends to \<open>output\<close>.\<close>

definition med_name :: "row \<Rightarrow> cell" where
  "med_name med = dict_get med ''medication_name'' (CStr ''Unknown'')"

definition medication_entry :: "row \<Rightarrow> string" where
  "medication_entry med =
     (let freq = dict_get med ''frequency'' (CStr ''Unknown'');
          classification = dict_get med ''classification'' (CStr ''Unknown'');
          reason = dict_get med ''reason'' (CStr ''Unknown'')
      in ''- '' @ str_of_cell (med_name med) @ ''\<newline>'' @
         ''  Frequency: '' @ str_of_cell freq @ '' | Class: '' @ str_of_cell classification @
         '' | Reason: '' @ str_of_cell reason @ ''\<newline>'')"

fun medications_loop :: "row list \<Rightarrow> cell list \<times> string \<Rightarrow> cell list \<times> string" where
  "medications_loop [] (seen_meds, output) = (seen_meds, output)"
| "medications_loop (med # meds) (seen_meds, output) =
     (if med_name med \<notin> set seen_meds
      then medications_loop meds (med_name med # seen_meds, output @ medication_entry med)
      else medications_loop meds (seen_meds, output))"

definition medications_section :: "row list \<Rightarrow> string" where
  "medications_section meds =
     ''## ACTIVE MEDICATIONS\<newline>'' @
     (if meds \<noteq> [] then snd (medications_loop meds ([], ''''))
      else ''No medication data available.\<newline>'') @
     ''\<newline>''"

text \<open>Section 3. The frame is sorted by date, descending, and then grouped by date.\<close>

definition vital_line :: "timestamp \<times> row \<Rightarrow> string" where
  "vital_line tr =
     (let vital_type = dict_get (snd tr) ''vital_type'' (CStr ''Unknown'');
          reading = dict_get (snd tr) ''reading'' (CStr ''N/A'')
      in ''  - '' @ str_of_cell vital_type @ '': '' @ str_of_cell reading @ ''\<newline>'')"

definition vitals_group :: "timestamp \<times> (timestamp \<times> row) list \<Rightarrow> string" where
  "vitals_group g =
     ''\<newline>**'' @ strftime_date (fst g) @ '':**\<newline>'' @ concat (map vital_line (snd g))"

definition vitals_section :: "(cell \<Rightarrow> timestamp option) \<Rightarrow> row list \<Rightarrow> py_error + string" where
  "vitals_section to_datetime vs =
     (if vs \<noteq> [] then
        and_then (with_datetime to_datetime ''visit_date'' vs) (\<lambda>vitals_df.
          Inr (''## VITAL SIGNS HISTORY\<newline>'' @
               concat (map vitals_group (groupby fst (sort_values_desc fst vitals_df))) @
               ''\<newline>''))
      else Inr (''## VITAL SIGNS HISTORY\<newline>'' @
                ''No vital signs data available.\<newline>'' @ ''\<newline>''))"

text \<open>Section 4. The most recent row of every (location, description) pair;
  \<open>drop_duplicates\<close> raises \<open>KeyError\<close> when a column of the subset is missing.\<close>

definition wound_key :: "timestamp \<times> row \<Rightarrow> py_error + cell \<times> cell" where
  "wound_key tr =
     (case map_of (snd tr) ''location'' of
        None \<Rightarrow> Inl KeyError
      | Some l \<Rightarrow>
          (case map_of (snd tr) ''description'' of
             None \<Rightarrow> Inl KeyError
           | Some d \<Rightarrow> Inr (l, d)))"

definition wound_entry :: "timestamp \<times> row \<Rightarrow> string" where
  "wound_entry tr =
     (let description = dict_get (snd tr) ''description'' (CStr ''Unknown'');
          location = dict_get (snd tr) ''location'' (CStr ''Unknown'');
          onset = dict_get (snd tr) ''onset_date'' (CStr ''Unknown'')
      in ''- '' @ str_of_cell description @ '' at '' @ str_of_cell location @ ''\<newline>'' @
         ''  Onset: '' @ str_of_cell onset @ '' | Last Assessment: '' @
         str_of_timestamp (fst tr) @ ''\<newline>'')"

definition wounds_section :: "(cell \<Rightarrow> timestamp option) \<Rightarrow> row list \<Rightarrow> py_error + string" where
  "wounds_section to_datetime ws =
     (if ws \<noteq> [] then
        and_then (with_datetime to_datetime ''visit_date'' ws) (\<lambda>wounds_df.
          if list_all (\<lambda>tr. case wound_key tr of Inl e \<Rightarrow> False | Inr k \<Rightarrow> True) wounds_df
          then
            (let latest_wounds =
                   drop_duplicates (\<lambda>tr. (map_of (snd tr) ''location'',
                                           map_of (snd tr) ''description''))
                     (sort_values_desc fst wounds_df)
             in Inr (''## ACTIVE WOUNDS\<newline>'' @ concat (map wound_entry latest_wounds) @
                     ''\<newline>''))
          else Inl KeyError)
      else Inr (''## ACTIVE WOUNDS\<newline>'' @ ''No wound data available.\<newline>'' @ ''\<newline>''))"

text \<open>Section 5. The first row of the frame sorted by assessment date, descending.\<close>

definition oasis_entry :: "timestamp \<times> row \<Rightarrow> string" where
  "oasis_entry latest_oasis =
     (let field = (\<lambda>key. str_of_cell (dict_get (snd latest_oasis) key (CStr ''Unknown'')))
      in ''**Assessment Date:** '' @ str_of_timestamp (fst latest_oasis) @ ''\<newline>'' @
         ''**Type:** '' @ field ''assessment_type'' @ ''\<newline>\<newline>'' @
         ''- **Grooming:** '' @ field ''grooming'' @ ''\<newline>'' @
         ''- **Bathing:** '' @ field ''bathing'' @ ''\<newline>'' @
         ''- **Toilet Transfer:** '' @ field ''toilet_transfer'' @ ''\<newline>'' @
         ''- **Transfer:** '' @ field ''transfer'' @ ''\<newline>'' @
         ''- **Ambulation:** '' @ field ''ambulation'' @ ''\<newline>'')"

definition oasis_section :: "(cell \<Rightarrow> timestamp option) \<Rightarrow> row list \<Rightarrow> py_error + string" where
  "oasis_section to_datetime os =
     (if os \<noteq> [] then
        and_then (with_datetime to_datetime ''assessment_date'' os) (\<lambda>oasis_df.
          (case sort_values_desc fst oasis_df of
             [] \<Rightarrow> Inl IndexError
           | latest_oasis # rest \<Rightarrow>
               Inr (''## FUNCTIONAL STATUS (OASIS Assessment)\<newline>'' @
                    oasis_entry latest_oasis @ ''\<newline>'')))
      else Inr (''## FUNCTIONAL STATUS (OASIS Assessment)\<newline>'' @
                ''No OASIS data available.\<newline>'' @ ''\<newline>''))"

text \<open>
  Section 6. The three first rows of the frame sorted by note date, descending. The text
  of a note is sliced, which raises \<open>TypeError\<close> on an integer cell, and the three dots
  are part of the format string.
\<close>

definition recent_notes ::
  "(cell \<Rightarrow> timestamp option) \<Rightarrow> row list \<Rightarrow> py_error + (timestamp \<times> row) list" where
  "recent_notes to_datetime ns =
     and_then (with_datetime to_datetime ''note_date'' ns) (\<lambda>notes_df.
       Inr (take 3 (sort_values_desc fst notes_df)))"

definition note_heading :: "timestamp \<times> row \<Rightarrow> string" where
  "note_heading note =
     (let note_type = dict_get (snd note) ''note_type'' (CStr ''Unknown'')
      in ''\<newline>**'' @ str_of_timestamp (fst note) @ '' - '' @ str_of_cell note_type @
         '':**\<newline>'')"

definition note_entry :: "timestamp \<times> row \<Rightarrow> py_error + string" where
  "note_entry note =
     (let note_text = dict_get (snd note) ''note_text'' (CStr ''No text'')
      in case note_text of
           CInt i \<Rightarrow> Inl TypeError
         | CStr s \<Rightarrow> Inr (note_heading note @ take 500 s @ ''...\<newline>''))"

fun notes_loop :: "(timestamp \<times> row) list \<Rightarrow> string \<Rightarrow> py_error + string" where
  "notes_loop [] output = Inr output"
| "notes_loop (note # rest) output =
     and_then (note_entry note) (\<lambda>entry. notes_loop rest (output @ entry))"

definition notes_section :: "(cell \<Rightarrow> timestamp option) \<Rightarrow> row list \<Rightarrow> py_error + string" where
  "notes_section to_datetime ns =
     (if ns \<noteq> [] then
        and_then (recent_notes to_datetime ns) (\<lambda>recent.
          notes_loop recent ''## CLINICAL NOTES (Recent)\<newline>'')
      else Inr (''## CLINICAL NOTES (Recent)\<newline>'' @ ''No clinical notes available.\<newline>''))"

subsection \<open>The narrative\<close>

text \<open>
  \<open>format_for_llm\<close>, with the two things it takes from its runtime as parameters: the
  conversion of a cell to a timestamp and the iteration order of a set. It returns \<open>Inr\<close>
  the text, or \<open>Inl\<close> the exception of the first section that raises.
\<close>

definition format_for_llm ::
  "(cell \<Rightarrow> timestamp option) \<Rightarrow> (cell list \<Rightarrow> cell list) \<Rightarrow> patient_data \<Rightarrow> py_error + string" where
  "format_for_llm to_datetime set_iter pd =
     and_then (vitals_section to_datetime (vitals pd)) (\<lambda>vitals_text.
     and_then (wounds_section to_datetime (wounds pd)) (\<lambda>wounds_text.
     and_then (oasis_section to_datetime (oasis pd)) (\<lambda>oasis_text.
     and_then (notes_section to_datetime (notes pd)) (\<lambda>notes_text.
       Inr (''# Patient Clinical Data - ID: '' @ str_of_int (patient_id pd) @ ''\<newline>\<newline>'' @
            diagnoses_section set_iter (diagnoses pd) @
            medications_section (medications pd) @
            vitals_text @ wounds_text @ oasis_text @ notes_text)))))"

subsection \<open>What the specification asks of the medications\<close>

text \<open>
  "Deduplicate by medication name, keeping the first-encountered record": the first
  record stays, the later records of its name go, and so on for the rest.
\<close>

function first_by_name :: "row list \<Rightarrow> row list" where
  "first_by_name [] = []"
| "first_by_name (m # ms) = m # first_by_name (filter (\<lambda>x. med_name x \<noteq> med_name m) ms)"
  by pat_completeness auto
termination
  by (relation "measure length") (auto simp: less_Suc_eq_le)

subsection \<open>What the claims ask of the tables and of the runtime\<close>



definition empty_bundle :: "int \<Rightarrow> patient_data" where
  "empty_bundle pid =
     \<lparr>patient_id = pid, diagnoses = [], medications = [], vitals = [],
      notes = [], wounds = [], oasis = []\<rparr>"




subsection \<open>Example runtime and tables\<close>

text \<open>
  A conversion for the concrete runs: it accepts a text \<open>YYYY-MM-DD\<close> that names a
  calendar day, as \<open>pd.to_datetime\<close> does, and gives midnight of that day. (pandas accepts
  other formats too; the runs below do not use them.)
\<close>

definition is_digit :: "char \<Rightarrow> bool" where
  "is_digit c = (48 \<le> (of_char c :: nat) \<and> (of_char c :: nat) \<le> 57)"

definition nat_of_digits :: "string \<Rightarrow> nat" where
  "nat_of_digits s = foldl (\<lambda>n c. 10 * n + ((of_char c :: nat) - 48)) 0 s"

definition days_in_month :: "nat \<Rightarrow> nat \<Rightarrow> nat" where
  "days_in_month y m =
     (if m = 2 then (if y mod 4 = 0 \<and> (y mod 100 \<noteq> 0 \<or> y mod 400 = 0) then 29 else 28)
      else if m = 4 \<or> m = 6 \<or> m = 9 \<or> m = 11 then 30 else 31)"

definition iso_date :: "cell \<Rightarrow> timestamp option" where
  "iso_date c =
     (case c of
        CInt i \<Rightarrow> None
      | CStr s \<Rightarrow>
          (let y = nat_of_digits (take 4 s);
               m = nat_of_digits (take 2 (drop 5 s));
               d = nat_of_digits (take 2 (drop 8 s))
           in if length s = 10 \<and> s ! 4 = CHR ''-'' \<and> s ! 7 = CHR ''-'' \<and>
                 list_all is_digit (take 4 s @ take 2 (drop 5 s) @ take 2 (drop 8 s)) \<and>
                 1 \<le> m \<and> m \<le> 12 \<and> 1 \<le> d \<and> d \<le> days_in_month y m
              then Some (y, m, d, 0, 0, 0) else None))"

text \<open>Two iteration orders of a set: the order of first insertion, and its reverse.\<close>

definition insertion_order :: "cell list \<Rightarrow> cell list" where
  "insertion_order xs = rev (remdups (rev xs))"



text \<open>Two medication records of one name, with different metadata, and a third record.\<close>

definition example_medications :: "row list" where
  "example_medications =
     [[(''medication_name'', CStr ''Aspirin''), (''frequency'', CStr ''DAILY''),
       (''classification'', CStr ''Analgesic''), (''reason'', CStr ''Pain'')],
      [(''medication_name'', CStr ''Metformin''), (''frequency'', CStr ''BID''),
       (''classification'', CStr ''Antidiabetic''), (''reason'', CStr ''Diabetes'')],
      [(''medication_name'', CStr ''Aspirin''), (''frequency'', CStr ''WEEKLY''),
       (''classification'', CStr ''Antiplatelet''), (''reason'', CStr ''Heart'')]]"


text \<open>Two vital signs of one patient, the later visit first.\<close>

definition example_vitals :: "row list" where
  "example_vitals =
     [[(''patient_id'', CInt 1001), (''visit_date'', CStr ''2026-01-10''),
       (''vital_type'', CStr ''Blood Pressure''), (''reading'', CStr ''130/85'')],
      [(''patient_id'', CInt 1001), (''visit_date'', CStr ''2026-01-01''),
       (''vital_type'', CStr ''Blood Pressure''), (''reading'', CStr ''120/80'')]]"



subsection \<open>What the notes section emits for one note\<close>


section \<open>Properties of the summary service\<close>

subsection \<open>What one provider call does\<close>

lemma map_of_dict_set: "map_of (dict_set kvs k v) k = Some v"
  by (induction kvs) auto

lemma setitem_Inr: "setitem d k v = Inr d' \<Longrightarrow> \<exists>kvs. d' = JObj kvs \<and> map_of kvs k = Some v"
  by (cases d) (auto simp: map_of_dict_set)


lemma call_gemini_events:
  "snd (call_gemini e ctx) = [Called Gemini] \<or>
   snd (call_gemini e ctx) = [Called Gemini, Requested Gemini]"
  by (auto simp: call_gemini_def Let_def split: sum.splits option.splits)

lemma call_openai_events:
  "snd (call_openai e ctx) = [Called OpenAI] \<or>
   snd (call_openai e ctx) = [Called OpenAI, Requested OpenAI]"
  by (auto simp: call_openai_def Let_def split: sum.splits option.splits)

lemma call_openai_stamp:
  "fst (call_openai e ctx) = Inr s \<Longrightarrow>
   \<exists>kvs. s = JObj kvs \<and> map_of kvs ''provider_used'' = Some (JStr ''openai'')"
  by (auto simp: call_openai_def Let_def split: sum.splits option.splits if_splits
      dest: setitem_Inr)

lemma call_gemini_force [simp]:
  "call_gemini (e\<lparr>FORCE_PROVIDER := f\<rparr>) ctx = call_gemini e ctx"
  by (simp add: call_gemini_def Let_def split: sum.splits)

lemma call_openai_force [simp]:
  "call_openai (e\<lparr>FORCE_PROVIDER := f\<rparr>) ctx = call_openai e ctx"
  by (simp add: call_openai_def Let_def split: sum.splits)

lemma call_gemini_upd_openai [simp]:
  "call_gemini (e\<lparr>openai_create := f\<rparr>) ctx = call_gemini e ctx"
  by (simp add: call_gemini_def Let_def split: sum.splits)

lemma call_openai_upd_gemini [simp]:
  "call_openai (e\<lparr>gemini_generate := f\<rparr>) ctx = call_openai e ctx"
  by (simp add: call_openai_def Let_def split: sum.splits)







subsection \<open>Fallback to the secondary provider\<close>

text \<open>
  Claim C3. With no forced provider and fallback enabled, when the call of the primary
  provider (Gemini) raises, \<open>generate_summary\<close> calls the secondary provider (OpenAI)
  exactly once, after the primary, and sends it at most one request; when that call
  returns a summary, \<open>generate_summary\<close> returns it with the name \<open>openai\<close>, and the
  summary's own \<open>provider_used\<close> field is \<open>openai\<close> too.
\<close>

theorem fallback_calls_secondary_once:
  assumes "FORCE_PROVIDER e \<noteq> ''openai''" and "FORCE_PROVIDER e \<noteq> ''gemini''"
    and "USE_FALLBACK e"
    and "fst (call_gemini e ctx) = Inl gemini_error"
  shows "snd (generate_summary e ctx) = snd (call_gemini e ctx) @ snd (call_openai e ctx) \<and>
         count_list (snd (generate_summary e ctx)) (Called OpenAI) = 1 \<and>
         count_list (snd (generate_summary e ctx)) (Requested OpenAI) \<le> 1 \<and>
         (\<forall>summary. fst (call_openai e ctx) = Inr summary \<longrightarrow>
            fst (generate_summary e ctx) = Inr (summary, ''openai'') \<and>
            (\<exists>kvs. summary = JObj kvs \<and>
                   map_of kvs ''provider_used'' = Some (JStr ''openai'')))"
proof -
  obtain evs where g: "call_gemini e ctx = (Inl gemini_error, evs)"
    using assms(4) by (cases "call_gemini e ctx") auto
  obtain r evs' where o: "call_openai e ctx = (r, evs')"
    by (cases "call_openai e ctx") auto
  have trace: "snd (generate_summary e ctx) = evs @ evs'"
    using assms(1-3) g o by (cases r) (simp_all add: generate_summary_def)
  have res: "fst (generate_summary e ctx) = Inr (summary, ''openai'')"
    if "r = Inr summary" for summary
    using assms(1-3) g o that by (simp add: generate_summary_def)
  have ge: "evs = [Called Gemini] \<or> evs = [Called Gemini, Requested Gemini]"
    using call_gemini_events [of e ctx] g by simp
  have oe: "evs' = [Called OpenAI] \<or> evs' = [Called OpenAI, Requested OpenAI]"
    using call_openai_events [of e ctx] o by simp
  have c1: "count_list (evs @ evs') (Called OpenAI) = 1"
    using ge oe by auto
  have c2: "count_list (evs @ evs') (Requested OpenAI) \<le> 1"
    using ge oe by auto
  show ?thesis
    using trace res c1 c2 g o call_openai_stamp [of e ctx] by auto
qed

theorem fallback_calls_secondary_once_witness:
  \<open>FORCE_PROVIDER (example_env '''' True (Inl ''timed out'')
       (Inr ''{"summary": "stable", "sections": {}}'')) \<noteq> ''openai'' \<and>
   FORCE_PROVIDER (example_env '''' True (Inl ''timed out'')
       (Inr ''{"summary": "stable", "sections": {}}'')) \<noteq> ''gemini'' \<and>
   USE_FALLBACK (example_env '''' True (Inl ''timed out'')
       (Inr ''{"summary": "stable", "sections": {}}'')) \<and>
   fst (call_gemini (example_env '''' True (Inl ''timed out'')
       (Inr ''{"summary": "stable", "sections": {}}'')) ''ctx'') =
     Inl ''Gemini API error: timed out'' \<and>
   generate_summary (example_env '''' True (Inl ''timed out'')
       (Inr ''{"summary": "stable", "sections": {}}'')) ''ctx'' =
     (Inr (JObj [(''summary'', JStr ''stable''), (''sections'', JObj []),
                 (''provider_used'', JStr ''openai'')], ''openai''),
      [Called Gemini, Requested Gemini, Called OpenAI, Requested OpenAI])\<close>
proof -
  let ?e = \<open>example_env '''' True (Inl ''timed out'')
              (Inr ''{"summary": "stable", "sections": {}}'')\<close>
  have h1: "FORCE_PROVIDER ?e \<noteq> ''openai''" by (simp add: example_env_def)
  have h2: "FORCE_PROVIDER ?e \<noteq> ''gemini''" by (simp add: example_env_def)
  have h3: "USE_FALLBACK ?e" by (simp add: example_env_def)
  have h4: "fst (call_gemini ?e ''ctx'') = Inl ''Gemini API error: timed out''"
    by code_simp
  have sg: "snd (call_gemini ?e ''ctx'') = [Called Gemini, Requested Gemini]"
    by code_simp
  have o: "call_openai ?e ''ctx'' =
      (Inr (JObj [(''summary'', JStr ''stable''), (''sections'', JObj []),
                  (''provider_used'', JStr ''openai'')]),
       [Called OpenAI, Requested OpenAI])"
    by code_simp
  note t = fallback_calls_secondary_once [OF h1 h2 h3 h4]
  have "snd (generate_summary ?e ''ctx'') =
      [Called Gemini, Requested Gemini, Called OpenAI, Requested OpenAI]"
    using t sg o by simp
  moreover have "fst (generate_summary ?e ''ctx'') =
      Inr (JObj [(''summary'', JStr ''stable''), (''sections'', JObj []),
                 (''provider_used'', JStr ''openai'')], ''openai'')"
    using t o by simp
  ultimately have "generate_summary ?e ''ctx'' =
     (Inr (JObj [(''summary'', JStr ''stable''), (''sections'', JObj []),
                 (''provider_used'', JStr ''openai'')], ''openai''),
      [Called Gemini, Requested Gemini, Called OpenAI, Requested OpenAI])"
    by (simp add: prod_eq_iff)
  then show ?thesis using h1 h2 h3 h4 by simp
qed

subsection \<open>A forced provider\<close>

text \<open>
  Claim C4. When \<open>FORCE_PROVIDER\<close> is \<open>openai\<close>, the events of \<open>generate_summary\<close> are
  those of the one call of OpenAI: Gemini is neither called nor sent a request, also when
  the OpenAI call fails, and then the failure of that call is the failure of
  \<open>generate_summary\<close>, with its own message; a summary it returns is returned with the name
  \<open>openai\<close>. The same holds with the two providers exchanged when \<open>FORCE_PROVIDER\<close> is
  \<open>gemini\<close>. Whether fallback is enabled plays no part.
\<close>

theorem forced_provider_only:
  "(FORCE_PROVIDER e = ''openai'' \<longrightarrow>
      snd (generate_summary e ctx) = snd (call_openai e ctx) \<and>
      Called Gemini \<notin> set (snd (generate_summary e ctx)) \<and>
      Requested Gemini \<notin> set (snd (generate_summary e ctx)) \<and>
      count_list (snd (generate_summary e ctx)) (Called OpenAI) = 1 \<and>
      (\<forall>err. fst (call_openai e ctx) = Inl err \<longrightarrow> fst (generate_summary e ctx) = Inl err) \<and>
      (\<forall>s. fst (call_openai e ctx) = Inr s \<longrightarrow>
           fst (generate_summary e ctx) = Inr (s, ''openai''))) \<and>
   (FORCE_PROVIDER e = ''gemini'' \<longrightarrow>
      snd (generate_summary e ctx) = snd (call_gemini e ctx) \<and>
      Called OpenAI \<notin> set (snd (generate_summary e ctx)) \<and>
      Requested OpenAI \<notin> set (snd (generate_summary e ctx)) \<and>
      count_list (snd (generate_summary e ctx)) (Called Gemini) = 1 \<and>
      (\<forall>err. fst (call_gemini e ctx) = Inl err \<longrightarrow> fst (generate_summary e ctx) = Inl err) \<and>
      (\<forall>s. fst (call_gemini e ctx) = Inr s \<longrightarrow>
           fst (generate_summary e ctx) = Inr (s, ''gemini'')))"
proof (intro conjI impI)
  assume f: "FORCE_PROVIDER e = ''openai''"
  obtain r evs where o: "call_openai e ctx = (r, evs)"
    by (cases "call_openai e ctx") auto
  have g: "generate_summary e ctx =
      (case r of Inl err \<Rightarrow> Inl err | Inr s \<Rightarrow> Inr (s, ''openai''), evs)"
    using f o by (cases r) (simp_all add: generate_summary_def)
  have oe: "evs = [Called OpenAI] \<or> evs = [Called OpenAI, Requested OpenAI]"
    using call_openai_events [of e ctx] o by simp
  show "snd (generate_summary e ctx) = snd (call_openai e ctx)" using g o by simp
  show "Called Gemini \<notin> set (snd (generate_summary e ctx))" using g oe by auto
  show "Requested Gemini \<notin> set (snd (generate_summary e ctx))" using g oe by auto
  show "count_list (snd (generate_summary e ctx)) (Called OpenAI) = 1" using g oe by auto
  show "\<forall>err. fst (call_openai e ctx) = Inl err \<longrightarrow> fst (generate_summary e ctx) = Inl err"
    using g o by simp
  show "\<forall>s. fst (call_openai e ctx) = Inr s \<longrightarrow>
            fst (generate_summary e ctx) = Inr (s, ''openai'')"
    using g o by simp
next
  assume f: "FORCE_PROVIDER e = ''gemini''"
  obtain r evs where o: "call_gemini e ctx = (r, evs)"
    by (cases "call_gemini e ctx") auto
  have g: "generate_summary e ctx =
      (case r of Inl err \<Rightarrow> Inl err | Inr s \<Rightarrow> Inr (s, ''gemini''), evs)"
    using f o by (cases r) (simp_all add: generate_summary_def)
  have oe: "evs = [Called Gemini] \<or> evs = [Called Gemini, Requested Gemini]"
    using call_gemini_events [of e ctx] o by simp
  show "snd (generate_summary e ctx) = snd (call_gemini e ctx)" using g o by simp
  show "Called OpenAI \<notin> set (snd (generate_summary e ctx))" using g oe by auto
  show "Requested OpenAI \<notin> set (snd (generate_summary e ctx))" using g oe by auto
  show "count_list (snd (generate_summary e ctx)) (Called Gemini) = 1" using g oe by auto
  show "\<forall>err. fst (call_gemini e ctx) = Inl err \<longrightarrow> fst (generate_summary e ctx) = Inl err"
    using g o by simp
  show "\<forall>s. fst (call_gemini e ctx) = Inr s \<longrightarrow>
            fst (generate_summary e ctx) = Inr (s, ''gemini'')"
    using g o by simp
qed

theorem forced_provider_only_witness:
  \<open>FORCE_PROVIDER (example_env ''openai'' True
       (Inr ''{"summary": "stable", "sections": {}}'') (Inl ''rate limited'')) = ''openai'' \<and>
   generate_summary (example_env ''openai'' True
       (Inr ''{"summary": "stable", "sections": {}}'') (Inl ''rate limited'')) ''ctx'' =
     (Inl ''OpenAI API error: rate limited'', [Called OpenAI, Requested OpenAI]) \<and>
   FORCE_PROVIDER (example_env ''gemini'' True (Inl ''timed out'')
       (Inr ''{"summary": "stable", "sections": {}}'')) = ''gemini'' \<and>
   generate_summary (example_env ''gemini'' True (Inl ''timed out'')
       (Inr ''{"summary": "stable", "sections": {}}'')) ''ctx'' =
     (Inl ''Gemini API error: timed out'', [Called Gemini, Requested Gemini])\<close>
proof -
  let ?e1 = \<open>example_env ''openai'' True
       (Inr ''{"summary": "stable", "sections": {}}'') (Inl ''rate limited'')\<close>
  let ?e2 = \<open>example_env ''gemini'' True (Inl ''timed out'')
       (Inr ''{"summary": "stable", "sections": {}}'')\<close>
  have f1: "FORCE_PROVIDER ?e1 = ''openai''" by (simp add: example_env_def)
  have f2: "FORCE_PROVIDER ?e2 = ''gemini''" by (simp add: example_env_def)
  have o: "call_openai ?e1 ''ctx'' =
      (Inl ''OpenAI API error: rate limited'', [Called OpenAI, Requested OpenAI])"
    by code_simp
  have g: "call_gemini ?e2 ''ctx'' =
      (Inl ''Gemini API error: timed out'', [Called Gemini, Requested Gemini])"
    by code_simp
  have "generate_summary ?e1 ''ctx'' =
      (Inl ''OpenAI API error: rate limited'', [Called OpenAI, Requested OpenAI])"
    using forced_provider_only [of ?e1 "''ctx''"] f1 o by (simp add: prod_eq_iff)
  moreover have "generate_summary ?e2 ''ctx'' =
      (Inl ''Gemini API error: timed out'', [Called Gemini, Requested Gemini])"
    using forced_provider_only [of ?e2 "''ctx''"] f2 g by (simp add: prod_eq_iff)
  ultimately show ?thesis using f1 f2 by simp
qed

subsection \<open>Both providers fail\<close>

text \<open>
  Claim C5. With no forced provider and fallback enabled, when the call of Gemini raises
  with message \<open>gemini_error\<close> and the call of OpenAI raises with message \<open>openai_error\<close>,
  \<open>generate_summary\<close> raises, and the message of its exception contains both messages as
  contiguous substrings.
\<close>

theorem both_failed_message:
  assumes "FORCE_PROVIDER e \<noteq> ''openai''" and "FORCE_PROVIDER e \<noteq> ''gemini''"
    and "USE_FALLBACK e"
    and "fst (call_gemini e ctx) = Inl gemini_error"
    and "fst (call_openai e ctx) = Inl openai_error"
  shows "\<exists>msg. fst (generate_summary e ctx) = Inl msg \<and>
               sublist gemini_error msg \<and> sublist openai_error msg"
proof -
  obtain evs where g: "call_gemini e ctx = (Inl gemini_error, evs)"
    using assms(4) by (cases "call_gemini e ctx") auto
  obtain evs' where o: "call_openai e ctx = (Inl openai_error, evs')"
    using assms(5) by (cases "call_openai e ctx") auto
  let ?msg = "''Both LLM providers failed:\<newline>'' @ ''  Gemini: '' @ gemini_error @
              ''\<newline>'' @ ''  OpenAI: '' @ openai_error @ ''\<newline>''"
  have "fst (generate_summary e ctx) = Inl ?msg"
    using assms(1-3) g o by (simp add: generate_summary_def)
  moreover have "sublist gemini_error ?msg"
    unfolding sublist_def
    by (rule exI [of _ "''Both LLM providers failed:\<newline>'' @ ''  Gemini: ''"],
        rule exI [of _ "''\<newline>'' @ ''  OpenAI: '' @ openai_error @ ''\<newline>''"]) simp
  moreover have "sublist openai_error ?msg"
    unfolding sublist_def
    by (rule exI [of _ "''Both LLM providers failed:\<newline>'' @ ''  Gemini: '' @
              gemini_error @ ''\<newline>'' @ ''  OpenAI: ''"],
        rule exI [of _ "''\<newline>''"]) simp
  ultimately show ?thesis by blast
qed

theorem both_failed_message_witness:
  "FORCE_PROVIDER (example_env '''' True (Inl ''timed out'') (Inr ''not json'')) \<noteq> ''openai'' \<and>
   FORCE_PROVIDER (example_env '''' True (Inl ''timed out'') (Inr ''not json'')) \<noteq> ''gemini'' \<and>
   USE_FALLBACK (example_env '''' True (Inl ''timed out'') (Inr ''not json'')) \<and>
   (\<exists>msg. fst (generate_summary
               (example_env '''' True (Inl ''timed out'') (Inr ''not json'')) ''ctx'') = Inl msg \<and>
      sublist ''Gemini API error: timed out'' msg \<and>
      sublist ''OpenAI returned invalid JSON: Expecting value: line 1 column 1 (char 0)'' msg)"
proof -
  let ?e = "example_env '''' True (Inl ''timed out'') (Inr ''not json'')"
  have h1: "FORCE_PROVIDER ?e \<noteq> ''openai''" by (simp add: example_env_def)
  have h2: "FORCE_PROVIDER ?e \<noteq> ''gemini''" by (simp add: example_env_def)
  have h3: "USE_FALLBACK ?e" by (simp add: example_env_def)
  have h4: "fst (call_gemini ?e ''ctx'') = Inl ''Gemini API error: timed out''"
    by code_simp
  have h5: "fst (call_openai ?e ''ctx'') =
      Inl ''OpenAI returned invalid JSON: Expecting value: line 1 column 1 (char 0)''"
    by code_simp
  show ?thesis
    using both_failed_message [OF h1 h2 h3 h4 h5] h1 h2 h3 by blast
qed

subsection \<open>An override that names no provider\<close>



subsection \<open>A response that is not a summary\<close>




section \<open>Properties of the data layer\<close>

subsection \<open>Fetching a patient\<close>







subsection \<open>Medications\<close>

lemma set_first_by_name: "set (first_by_name ms) \<subseteq> set ms"
  by (induction ms rule: first_by_name.induct) auto

lemma names_first_by_name: "set (map med_name (first_by_name ms)) = set (map med_name ms)"
  by (induction ms rule: first_by_name.induct) auto

lemma distinct_first_by_name: "distinct (map med_name (first_by_name ms))"
proof (induction ms rule: first_by_name.induct)
  case 1
  then show ?case by simp
next
  case (2 m ms)
  have "med_name m \<notin> med_name ` set (first_by_name (filter (\<lambda>x. med_name x \<noteq> med_name m) ms))"
    using set_first_by_name [of "filter (\<lambda>x. med_name x \<noteq> med_name m) ms"] by auto
  with 2 show ?case by simp
qed

lemma find_filter_weaker:
  "(\<And>x. P x \<Longrightarrow> Q x) \<Longrightarrow> find P (filter Q xs) = find P xs"
  by (induction xs) auto

lemma first_by_name_is_first:
  "e \<in> set (first_by_name ms) \<Longrightarrow> find (\<lambda>m. med_name m = med_name e) ms = Some e"
proof (induction ms rule: first_by_name.induct)
  case 1
  then show ?case by simp
next
  case (2 m ms)
  show ?case
  proof (cases "e = m")
    case True
    then show ?thesis by simp
  next
    case False
    let ?rest = "filter (\<lambda>x. med_name x \<noteq> med_name m) ms"
    from False 2(2) have e: "e \<in> set (first_by_name ?rest)" by simp
    then have "e \<in> set ?rest" using set_first_by_name by blast
    then have ne: "med_name e \<noteq> med_name m" by simp
    have "find (\<lambda>x. med_name x = med_name e) ?rest = find (\<lambda>x. med_name x = med_name e) ms"
      by (rule find_filter_weaker) (use ne in auto)
    with 2(1) [OF e] ne show ?thesis by auto
  qed
qed

text \<open>The loop of the source emits the entries of \<open>first_by_name\<close>, in their order.\<close>

lemma medications_loop_first_by_name:
  "snd (medications_loop meds (seen, out)) =
     out @ concat (map medication_entry
                     (first_by_name (filter (\<lambda>m. med_name m \<notin> set seen) meds)))"
proof (induction meds arbitrary: seen out)
  case Nil
  then show ?case by simp
next
  case (Cons med meds)
  have f: "filter (\<lambda>x. med_name x \<noteq> med_name med) (filter (\<lambda>m. med_name m \<notin> set seen) meds) =
           filter (\<lambda>m. med_name m \<notin> set (med_name med # seen)) meds"
    by (induction meds) auto
  show ?case
    using Cons [of "med_name med # seen" "out @ medication_entry med"] Cons [of seen out] f
    by simp
qed

text \<open>
  Claim C8. For a non-empty list of medication records, the medications section is its
  heading followed by one entry (name line and metadata line) for each record of
  \<open>first_by_name\<close>: no two entries have the same name, every name of the list has its
  entry, and the record of an entry is the first record of the list with that name, so
  the frequency, classification and reason printed are those of the first record.
\<close>

theorem medications_first_seen_wins:
  assumes "meds \<noteq> []"
  shows "medications_section meds =
           ''## ACTIVE MEDICATIONS\<newline>'' @
           concat (map medication_entry (first_by_name meds)) @ ''\<newline>'' \<and>
         distinct (map med_name (first_by_name meds)) \<and>
         set (map med_name (first_by_name meds)) = set (map med_name meds) \<and>
         (\<forall>e \<in> set (first_by_name meds).
            find (\<lambda>m. med_name m = med_name e) meds = Some e)"
  using assms medications_loop_first_by_name [of meds "[]" "''''"]
    distinct_first_by_name [of meds] names_first_by_name [of meds]
    first_by_name_is_first [of _ meds]
  by (simp add: medications_section_def)

theorem medications_first_seen_wins_witness:
  "example_medications \<noteq> [] \<and>
   first_by_name example_medications = take 2 example_medications \<and>
   medications_section example_medications =
     ''## ACTIVE MEDICATIONS\<newline>'' @
     ''- Aspirin\<newline>'' @
     ''  Frequency: DAILY | Class: Analgesic | Reason: Pain\<newline>'' @
     ''- Metformin\<newline>'' @
     ''  Frequency: BID | Class: Antidiabetic | Reason: Diabetes\<newline>'' @
     ''\<newline>''"
proof -
  have ne: "example_medications \<noteq> []" by (simp add: example_medications_def)
  have f: "first_by_name example_medications = take 2 example_medications" by code_simp
  have r: "concat (map medication_entry (take 2 example_medications)) =
      ''- Aspirin\<newline>'' @
      ''  Frequency: DAILY | Class: Analgesic | Reason: Pain\<newline>'' @
      ''- Metformin\<newline>'' @
      ''  Frequency: BID | Class: Antidiabetic | Reason: Diabetes\<newline>''"
    by code_simp
  have "medications_section example_medications =
      ''## ACTIVE MEDICATIONS\<newline>'' @
      concat (map medication_entry (first_by_name example_medications)) @ ''\<newline>''"
    using medications_first_seen_wins [OF ne] by blast
  then have "medications_section example_medications =
      ''## ACTIVE MEDICATIONS\<newline>'' @
      (''- Aspirin\<newline>'' @
       ''  Frequency: DAILY | Class: Analgesic | Reason: Pain\<newline>'' @
       ''- Metformin\<newline>'' @
       ''  Frequency: BID | Class: Antidiabetic | Reason: Diabetes\<newline>'') @ ''\<newline>''"
    unfolding f r .
  then show ?thesis using ne f by simp
qed

subsection \<open>Vital signs\<close>

lemma groupby_keys: "map fst (groupby key xs) = sort (remdups (map key xs))"
  by (simp add: groupby_def comp_def)

lemma groupby_keys_ascending: "sorted_wrt (<) (map fst (groupby key xs))"
  by (simp add: groupby_keys strict_sorted_iff)

text \<open>Whatever the rows and the conversion, the date groups of the vitals section come
  in strictly ascending order of their timestamp.\<close>

lemma vitals_groups_ascending:
  assumes "vs \<noteq> []" and "vitals_section to_datetime vs = Inr out"
  shows "\<exists>groups. out = ''## VITAL SIGNS HISTORY\<newline>'' @
                        concat (map vitals_group groups) @ ''\<newline>'' \<and>
                  sorted_wrt (<) (map fst groups)"
  using assms groupby_keys_ascending
  by (auto simp: vitals_section_def and_then_def split: sum.splits)

text \<open>
  Claim C1 asks for the date groups most recent first. The code sorts the frame by date,
  descending, and then iterates over \<open>groupby\<close>, which orders the groups by ascending
  key. For a bundle whose vitals are one reading on 2026-01-10 and one on 2026-01-01,
  the narrative has the group of 2026-01-01 before the group of 2026-01-10, whichever of
  the two rows comes first in the bundle.
\<close>

theorem vitals_groups_come_oldest_first:
  "format_for_llm iso_date insertion_order ((empty_bundle 1001)\<lparr>vitals := example_vitals\<rparr>) =
     Inr (''# Patient Clinical Data - ID: 1001\<newline>\<newline>'' @
          ''## PRIMARY DIAGNOSES\<newline>No diagnosis data available.\<newline>\<newline>'' @
          ''## ACTIVE MEDICATIONS\<newline>No medication data available.\<newline>\<newline>'' @
          ''## VITAL SIGNS HISTORY\<newline>'' @
          ''\<newline>**2026-01-01:**\<newline>  - Blood Pressure: 120/80\<newline>'' @
          ''\<newline>**2026-01-10:**\<newline>  - Blood Pressure: 130/85\<newline>'' @
          ''\<newline>'' @
          ''## ACTIVE WOUNDS\<newline>No wound data available.\<newline>\<newline>'' @
          ''## FUNCTIONAL STATUS (OASIS Assessment)\<newline>No OASIS data available.\<newline>\<newline>'' @
          ''## CLINICAL NOTES (Recent)\<newline>No clinical notes available.\<newline>'') \<and>
   format_for_llm iso_date insertion_order
       ((empty_bundle 1001)\<lparr>vitals := rev example_vitals\<rparr>) =
     format_for_llm iso_date insertion_order ((empty_bundle 1001)\<lparr>vitals := example_vitals\<rparr>)"
  by code_simp

subsection \<open>Clinical notes\<close>


lemma set_sort_values_desc [simp]: "set (sort_values_desc key xs) = set xs"
  by (simp add: sort_values_desc_def)

lemma length_sort_values_desc [simp]: "length (sort_values_desc key xs) = length xs"
  by (simp add: sort_values_desc_def)









subsection \<open>The narrative as a function of the bundle\<close>








end
